theory Spec2Isabelle
  imports Main "HOL-Library.Multiset"
begin

section \<open>Errors\<close>

text \<open>
  The exceptions of the Python program that the model distinguishes. A raise inside a
  pure computation is the value \<open>Inl e\<close> of a result type \<open>error + 'a\<close>.
  \<open>ReadFailed msg\<close> stands for whatever \<open>pd.read_csv\<close> raises on a file it cannot
  read or parse.
\<close>

datatype error = ValueError | OverflowError | KeyError | ReadFailed string

section \<open>Calendar dates (Python's \<open>datetime.date\<close> and \<open>timedelta\<close>)\<close>

text \<open>
  \<open>main.py\<close> computes with \<open>datetime.date\<close> values (what \<open>st.date_input\<close> returns)
  and \<open>timedelta(days=...)\<close>. A date is the triple the Python object holds. The
  functions below follow the standard library's reference implementation
  (\<open>Lib/_pydatetime.py\<close>): \<open>_is_leap\<close>, \<open>_days_before_year\<close>, \<open>_days_in_month\<close>,
  \<open>_days_before_month\<close>, \<open>_ymd2ord\<close>, \<open>_ord2ymd\<close> and \<open>date.__add__\<close>.
\<close>

record date =
  year :: int
  month :: int
  day :: int

definition MINYEAR :: int where
  "MINYEAR = 1"

definition MAXYEAR :: int where
  "MAXYEAR = 9999"

definition MAXORDINAL :: int where
  "MAXORDINAL = 3652059"

definition is_leap :: "int \<Rightarrow> bool" where
  "is_leap y = (y mod 4 = 0 \<and> (y mod 100 \<noteq> 0 \<or> y mod 400 = 0))"

definition DAYS_IN_MONTH :: "int list" where
  "DAYS_IN_MONTH = [-1, 31, 28, 31, 30, 31, 30, 31, 31, 30, 31, 30, 31]"

definition DAYS_BEFORE_MONTH :: "int list" where
  "DAYS_BEFORE_MONTH = [-1, 0, 31, 59, 90, 120, 151, 181, 212, 243, 273, 304, 334]"

definition days_before_year :: "int \<Rightarrow> int" where
  "days_before_year y = (let y1 = y - 1 in y1 * 365 + y1 div 4 - y1 div 100 + y1 div 400)"

definition days_in_month :: "int \<Rightarrow> int \<Rightarrow> int" where
  "days_in_month y m = (if m = 2 \<and> is_leap y then 29 else DAYS_IN_MONTH ! nat m)"

definition days_before_month :: "int \<Rightarrow> int \<Rightarrow> int" where
  "days_before_month y m = DAYS_BEFORE_MONTH ! nat m + (if m > 2 \<and> is_leap y then 1 else 0)"

text \<open>The values a \<open>date\<close> object can hold (the constructor's check).\<close>

definition valid_date :: "date \<Rightarrow> bool" where
  "valid_date d =
     (MINYEAR \<le> year d \<and> year d \<le> MAXYEAR \<and> 1 \<le> month d \<and> month d \<le> 12 \<and>
      1 \<le> day d \<and> day d \<le> days_in_month (year d) (month d))"

definition ymd2ord :: "int \<Rightarrow> int \<Rightarrow> int \<Rightarrow> int" where
  "ymd2ord y m d = days_before_year y + days_before_month y m + d"

definition toordinal :: "date \<Rightarrow> int" where
  "toordinal d = ymd2ord (year d) (month d) (day d)"

text \<open>
  The month and day of the \<open>n\<close>-th day (from 0) of a year, the last part of
  \<open>_ord2ymd\<close>: the estimate \<open>(n + 50) >> 5\<close> is corrected downwards when it is too large.
\<close>

definition ord2md :: "int \<Rightarrow> bool \<Rightarrow> int \<times> int" where
  "ord2md n leapyear =
     (let month0 = (n + 50) div 32;
          preceding0 = DAYS_BEFORE_MONTH ! nat month0 + (if month0 > 2 \<and> leapyear then 1 else 0)
      in if preceding0 > n
         then (let month1 = month0 - 1;
                   preceding1 = preceding0 -
                     (DAYS_IN_MONTH ! nat month1 + (if month1 = 2 \<and> leapyear then 1 else 0))
               in (month1, n - preceding1 + 1))
         else (month0, n - preceding0 + 1))"

definition ord2ymd :: "int \<Rightarrow> date" where
  "ord2ymd n0 =
     (let n = n0 - 1;
          n400 = n div 146097; n = n mod 146097;
          year0 = n400 * 400 + 1;
          n100 = n div 36524; n = n mod 36524;
          n4 = n div 1461; n = n mod 1461;
          n1 = n div 365; n = n mod 365;
          year1 = year0 + (n100 * 100 + n4 * 4 + n1)
      in if n1 = 4 \<or> n100 = 4
         then \<lparr>year = year1 - 1, month = 12, day = 31\<rparr>
         else (let leapyear = (n1 = 3 \<and> (n4 \<noteq> 24 \<or> n100 = 3));
                   md = ord2md n leapyear
               in \<lparr>year = year1, month = fst md, day = snd md\<rparr>))"

definition fromordinal :: "int \<Rightarrow> date" where
  "fromordinal n = ord2ymd n"

text \<open>
  \<open>timedelta(days=n)\<close> raises \<open>OverflowError\<close> when \<open>|n| > 999999999\<close>; a
  \<open>timedelta\<close> built from days only is modelled by its number of days.
\<close>

definition timedelta :: "int \<Rightarrow> error + int" where
  "timedelta days = (if \<bar>days\<bar> > 999999999 then Inl OverflowError else Inr days)"

text \<open>\<open>date.__add__\<close>: through the ordinal, \<open>OverflowError\<close> outside \<open>1 .. _MAXORDINAL\<close>.\<close>

definition date_add :: "date \<Rightarrow> int \<Rightarrow> error + date" where
  "date_add d days =
     (let o1 = toordinal d + days
      in if 0 < o1 \<and> o1 \<le> MAXORDINAL then Inr (fromordinal o1) else Inl OverflowError)"




section \<open>Strings\<close>

text \<open>
  Python strings are modelled as \<open>string\<close>. A character outside ASCII stands as its
  UTF-8 bytes (written \<open>CHR 0xC3\<close> and so on in the constants below). \<open>str.upper\<close>
  and \<open>str.strip\<close> are modelled on the ASCII range: \<open>upper\<close> maps \<open>a..z\<close> to
  \<open>A..Z\<close> and leaves every other character as it is, \<open>strip\<close> removes the ASCII
  characters for which \<open>str.isspace\<close> holds (\<open>0x09..0x0D\<close>, \<open>0x1C..0x20\<close>) from both
  ends. Python's case mapping and white space beyond ASCII are not modelled.
\<close>

definition upper_char :: "char \<Rightarrow> char" where
  "upper_char c =
     (let n = (of_char c :: nat) in if 97 \<le> n \<and> n \<le> 122 then char_of (n - 32) else c)"

definition upper :: "string \<Rightarrow> string" where
  "upper s = map upper_char s"

definition is_space :: "char \<Rightarrow> bool" where
  "is_space c = (let n = (of_char c :: nat) in (9 \<le> n \<and> n \<le> 13) \<or> (28 \<le> n \<and> n \<le> 32))"

definition strip :: "string \<Rightarrow> string" where
  "strip s = rev (dropWhile is_space (rev (dropWhile is_space s)))"

text \<open>\<open>sub in s\<close> on strings: \<open>sub\<close> occurs in \<open>s\<close> as a contiguous substring.\<close>

fun contains :: "string \<Rightarrow> string \<Rightarrow> bool" where
  "contains sub [] = (sub = [])"
| "contains sub (c # s) = (take (length sub) (c # s) = sub \<or> contains sub s)"

subsection \<open>\<open>str(date)\<close>, \<open>strftime('%Y-%m-%d')\<close> and \<open>strptime(..., '%Y-%m-%d')\<close>\<close>

definition digit_char :: "int \<Rightarrow> char" where
  "digit_char n = ''0123456789'' ! nat n"

definition is_digit :: "char \<Rightarrow> bool" where
  "is_digit c = (c \<in> set ''0123456789'')"

definition is_digit19 :: "char \<Rightarrow> bool" where
  "is_digit19 c = (c \<in> set ''123456789'')"

text \<open>The value of a decimal digit, \<open>ord(c) - ord('0')\<close>.\<close>

definition digit_val :: "char \<Rightarrow> int" where
  "digit_val c = of_char c - 48"

text \<open>\<open>date.__str__\<close> is \<open>isoformat\<close>: \<open>"%04d-%02d-%02d" % (year, month, day)\<close>.\<close>

definition isoformat :: "date \<Rightarrow> string" where
  "isoformat d =
     [digit_char (year d div 1000 mod 10), digit_char (year d div 100 mod 10),
      digit_char (year d div 10 mod 10), digit_char (year d mod 10), CHR ''-'',
      digit_char (month d div 10 mod 10), digit_char (month d mod 10), CHR ''-'',
      digit_char (day d div 10 mod 10), digit_char (day d mod 10)]"

text \<open>
  \<open>date.strftime('%Y-%m-%d')\<close>, as \<open>main.py\<close> writes dates into the table. It is
  modelled with the year padded to four digits, which is what every platform prints for
  the years \<open>1000..9999\<close> (for earlier years the C library decides on the padding).
\<close>

definition strftime_ymd :: "date \<Rightarrow> string" where
  "strftime_ymd d = isoformat d"

text \<open>
  \<open>datetime.strptime(s, '%Y-%m-%d').date()\<close>. The format compiles to the regular
  expression \<open>(\d\d\d\d)-(1[0-2]|0[1-9]|[1-9])-(3[01]|[12]\d|0[1-9]|[1-9]| [1-9])\<close>, which
  must match at the start of \<open>s\<close> and leave nothing over; the fields must then make a
  \<open>date\<close>. Every failure is a \<open>ValueError\<close>.
\<close>

definition match_month :: "string \<Rightarrow> (int \<times> string) option" where
  "match_month s =
     (case s of
        a # b # r \<Rightarrow>
          if a = CHR ''1'' \<and> b \<in> set ''012'' \<and> take 1 r = ''-''
          then Some (10 + digit_val b, drop 1 r)
          else if a = CHR ''0'' \<and> is_digit19 b \<and> take 1 r = ''-''
          then Some (digit_val b, drop 1 r)
          else if is_digit19 a \<and> b = CHR ''-'' then Some (digit_val a, r)
          else None
      | _ \<Rightarrow> None)"

definition match_day :: "string \<Rightarrow> (int \<times> string) option" where
  "match_day s =
     (case s of
        [] \<Rightarrow> None
      | [a] \<Rightarrow> if is_digit19 a then Some (digit_val a, []) else None
      | a # b # r \<Rightarrow>
          if a = CHR ''3'' \<and> b \<in> set ''01'' then Some (30 + digit_val b, r)
          else if a \<in> set ''12'' \<and> is_digit b then Some (10 * digit_val a + digit_val b, r)
          else if a = CHR ''0'' \<and> is_digit19 b then Some (digit_val b, r)
          else if is_digit19 a then Some (digit_val a, b # r)
          else if a = CHR '' '' \<and> is_digit19 b then Some (digit_val b, r)
          else None)"

definition strptime_ymd :: "string \<Rightarrow> error + date" where
  "strptime_ymd s =
     (if 5 \<le> length s \<and> list_all is_digit (take 4 s) \<and> s ! 4 = CHR ''-''
      then (case match_month (drop 5 s) of
              None \<Rightarrow> Inl ValueError
            | Some (m, r) \<Rightarrow>
                (case match_day r of
                   None \<Rightarrow> Inl ValueError
                 | Some (d, r') \<Rightarrow>
                     (let y = 1000 * digit_val (s ! 0) + 100 * digit_val (s ! 1) +
                              10 * digit_val (s ! 2) + digit_val (s ! 3);
                          dt = \<lparr>year = y, month = m, day = d\<rparr>
                      in if r' \<noteq> [] then Inl ValueError
                         else if valid_date dt then Inr dt else Inl ValueError)))
      else Inl ValueError)"

section \<open>The date calculator\<close>

text \<open>
  \<open>calcular_datas(data_inicio, dias)\<close>. The argument is a \<open>date\<close>, which is not an
  instance of \<open>datetime\<close>, so it is first printed and parsed again; then
  \<open>data_final = data_inicio + timedelta(days=dias - 1)\<close> and
  \<open>data_retorno = data_final + timedelta(days=1)\<close>.
\<close>

definition calcular_datas :: "date \<Rightarrow> int \<Rightarrow> error + date \<times> date" where
  "calcular_datas data_inicio dias =
     (case strptime_ymd (isoformat data_inicio) of
        Inl e \<Rightarrow> Inl e
      | Inr d0 \<Rightarrow>
          (case timedelta (dias - 1) of
             Inl e \<Rightarrow> Inl e
           | Inr td \<Rightarrow>
               (case date_add d0 td of
                  Inl e \<Rightarrow> Inl e
                | Inr data_final \<Rightarrow>
                    (case timedelta 1 of
                       Inl e \<Rightarrow> Inl e
                     | Inr one \<Rightarrow>
                         (case date_add data_final one of
                            Inl e \<Rightarrow> Inl e
                          | Inr data_retorno \<Rightarrow> Inr (data_final, data_retorno))))))"

section \<open>The table of absences\<close>

text \<open>
  A cell of the pandas \<open>DataFrame\<close>: a missing value (\<open>NaN\<close>, \<open>NaT\<close>), a string, an
  integer or a \<open>date\<close> object. A row has the seven columns of \<open>COLUMNS\<close>. The frame
  kept in \<open>st.session_state.df_atestados\<close> is the list of its rows, each with its index
  label; \<open>.loc\<close>, \<open>drop\<close> and the edit and delete forms address rows by label.
\<close>

datatype cell = NaN | StrV string | IntV int | DateV date

record row =
  Nome_do_Colaborador :: cell
  Data_de_Inicio :: cell
  Dias :: cell
  Data_Final :: cell
  CID :: cell
  Tipo :: cell
  Motivo :: cell

type_synonym dataframe = "(int \<times> row) list"

text \<open>\<open>reset_index(drop=True)\<close> and \<open>ignore_index=True\<close>: the labels become \<open>0, 1, ...\<close>.\<close>

definition reset_index :: "row list \<Rightarrow> dataframe" where
  "reset_index rs = zip (map int [0..<length rs]) rs"

text \<open>\<open>pd.concat([df, pd.DataFrame([novo_registro])], ignore_index=True)\<close>.\<close>

definition concat_ignore_index :: "dataframe \<Rightarrow> row list \<Rightarrow> dataframe" where
  "concat_ignore_index df rs = reset_index (map snd df @ rs)"

text \<open>\<open>df.drop(index)\<close>: \<open>KeyError\<close> when no row has the label.\<close>

definition drop_label :: "int \<Rightarrow> dataframe \<Rightarrow> error + dataframe" where
  "drop_label index df =
     (if index \<in> set (map fst df) then Inr (filter (\<lambda>(l, r). l \<noteq> index) df)
      else Inl KeyError)"

text \<open>
  \<open>df.loc[index, col]\<close> as a read: the row with the label (\<open>None\<close> is pandas'
  \<open>KeyError\<close>). The labels of a frame of the application are distinct.
\<close>

definition loc_get :: "dataframe \<Rightarrow> int \<Rightarrow> row option" where
  "loc_get df index = map_of df index"

text \<open>
  \<open>df.loc[index, col] = value\<close> for each of the seven columns in turn: the row with the
  label gets the seven values. When no row has the label, pandas enlarges the frame
  (setting with enlargement): the first assignment appends a row with that label, which
  the six others fill.
\<close>

definition loc_set :: "dataframe \<Rightarrow> int \<Rightarrow> row \<Rightarrow> dataframe" where
  "loc_set df index new =
     (if index \<in> set (map fst df)
      then map (\<lambda>(l, r). if l = index then (l, new) else (l, r)) df
      else df @ [(index, new)])"

section \<open>The state of a session\<close>

text \<open>
  What the operations read and change: the frame of the session, the frames
  \<open>save_data\<close> has written to \<open>atestados_registrados.csv\<close> (the latest first; every
  write replaces the file), the entries of \<open>st.cache_data\<close> for \<open>pesquisar_cid\<close> (the
  argument, the value returned, the time it was stored), the prompts sent to the
  text-generation service so far, and the time in seconds.
\<close>

record app_state =
  df_atestados :: dataframe
  saved :: "dataframe list"
  cache :: "(string \<times> string \<times> nat) list"
  api_calls :: "string list"
  clock :: nat


text \<open>
  How an operation ends: it ran to its \<open>st.rerun()\<close>, an exception left it, or a form
  handler showed \<open>st.error(msg)\<close> and did nothing else.
\<close>

datatype outcome = Done | Raised error | StError string

section \<open>The description lookup\<close>

text \<open>
  The text-generation service is outside the program: \<open>gemini k prompt\<close> is what the
  \<open>k\<close>-th call of the session (from 0) does with \<open>prompt\<close> inside the \<open>try\<close> block of
  \<open>pesquisar_cid\<close>: the text of the response, an \<open>APIError\<close> or another exception, each
  with its message.
\<close>

datatype api_result = Response string | APIError string | OtherError string

type_synonym service = "nat \<Rightarrow> string \<Rightarrow> api_result"

definition prompt_text :: "string \<Rightarrow> string" where
  "prompt_text codigo_cid =
     ([CHR 0x0A] @ ''    Forne'' @ [CHR 0xC3, CHR 0xA7] @ ''a uma descri'' @ [CHR 0xC3, CHR 0xA7, CHR 0xC3, CHR 0xA3] @ ''o do c'' @ [CHR 0xC3, CHR 0xB3] @ ''digo CID: '') @ codigo_cid @
     ('' usando APENAS termos simples, n'' @ [CHR 0xC3, CHR 0xA3] @ ''o t'' @ [CHR 0xC3, CHR 0xA9] @ ''cnicos e concisos.'' @ [CHR 0x0A] @ ''    A resposta deve ser ideal para um registro administrativo.'' @ [CHR 0x0A] @ ''    Se o c'' @ [CHR 0xC3, CHR 0xB3] @ ''digo for inv'' @ [CHR 0xC3, CHR 0xA1] @ ''lido, responda apenas: '' @ [CHR 0x27] @ ''C'' @ [CHR 0xC3, CHR 0x93] @ ''DIGO INV'' @ [CHR 0xC3, CHR 0x81] @ ''LIDO'' @ [CHR 0x27] @ ''.'' @ [CHR 0x0A] @ ''    '')"

definition NO_CID :: string where
  "NO_CID = ''N/A - Nenhum CID fornecido.''"

definition CODIGO_INVALIDO :: string where
  "CODIGO_INVALIDO = ''C'' @ [CHR 0xC3, CHR 0x93] @ ''DIGO INV'' @ [CHR 0xC3, CHR 0x81] @ ''LIDO''"

definition NAO_ENCONTRADO :: string where
  "NAO_ENCONTRADO = ''N'' @ [CHR 0xC3, CHR 0x83] @ ''O ENCONTRADO''"

definition MSG_INVALIDO :: string where
  "MSG_INVALIDO = ''C'' @ [CHR 0xC3, CHR 0xB3] @ ''digo n'' @ [CHR 0xC3, CHR 0xA3] @ ''o encontrado ou inv'' @ [CHR 0xC3, CHR 0xA1] @ ''lido.''"

definition MSG_API_ERROR :: string where
  "MSG_API_ERROR = ''Erro na API do Gemini: Verifique sua chave e cota. Detalhe: ''"

definition MSG_OTHER_ERROR :: string where
  "MSG_OTHER_ERROR = ''Erro inesperado na pesquisa do CID: ''"

text \<open>
  The body of \<open>pesquisar_cid\<close>, without its cache. \<open>genai.configure\<close>, which stands
  before the \<open>try\<close> block, only records the key.
\<close>

definition pesquisar_cid_body :: "service \<Rightarrow> string \<Rightarrow> app_state \<Rightarrow> string \<times> app_state" where
  "pesquisar_cid_body gemini codigo_cid s =
     (let codigo = upper (strip codigo_cid)
      in if codigo = [] then (NO_CID, s)
         else (let prompt = prompt_text codigo;
                   s1 = s\<lparr>api_calls := api_calls s @ [prompt]\<rparr>
               in case gemini (length (api_calls s)) prompt of
                    Response text \<Rightarrow>
                      (let descricao = strip text
                       in if contains CODIGO_INVALIDO descricao \<or> contains NAO_ENCONTRADO descricao
                          then (MSG_INVALIDO, s1) else (descricao, s1))
                  | APIError e \<Rightarrow> (MSG_API_ERROR @ e, s1)
                  | OtherError e \<Rightarrow> (MSG_OTHER_ERROR @ e, s1)))"

text \<open>
  \<open>@st.cache_data(ttl=3600)\<close>: Streamlit keeps the value returned for an argument and
  returns it again, without running the body, until the entry is \<open>ttl\<close> seconds old;
  \<open>st.cache_data.clear()\<close> drops every entry.
\<close>

definition TTL :: nat where
  "TTL = 3600"

definition cache_lookup :: "(string \<times> string \<times> nat) list \<Rightarrow> nat \<Rightarrow> string \<Rightarrow> string option" where
  "cache_lookup entries now arg =
     (case map_of entries arg of
        None \<Rightarrow> None
      | Some (v, stored) \<Rightarrow> if now < stored + TTL then Some v else None)"

definition pesquisar_cid :: "service \<Rightarrow> string \<Rightarrow> app_state \<Rightarrow> string \<times> app_state" where
  "pesquisar_cid gemini codigo_cid s =
     (case cache_lookup (cache s) (clock s) codigo_cid of
        Some v \<Rightarrow> (v, s)
      | None \<Rightarrow>
          (let (v, s1) = pesquisar_cid_body gemini codigo_cid s
           in (v, s1\<lparr>cache := (codigo_cid, v, clock s1) # cache s1\<rparr>)))"

section \<open>The operations on the table\<close>

definition MOTIVO_BANCO :: string where
  "MOTIVO_BANCO = ''Compensa'' @ [CHR 0xC3, CHR 0xA7, CHR 0xC3, CHR 0xA3] @ ''o de Banco de Horas''"

text \<open>
  \<open>add_record(nome, data_inicio, dias, tipo, cid="", motivo_texto="")\<close>. The success
  message, which shows the return date, is not modelled.
\<close>

definition add_record ::
  "service \<Rightarrow> string \<Rightarrow> date \<Rightarrow> int \<Rightarrow> string \<Rightarrow> string \<Rightarrow> string \<Rightarrow> app_state \<Rightarrow> outcome \<times> app_state"
where
  "add_record gemini nome data_inicio dias tipo cid motivo_texto s =
     (let df = df_atestados s
      in case calcular_datas data_inicio dias of
           Inl e \<Rightarrow> (Raised e, s)
         | Inr (data_final, data_retorno) \<Rightarrow>
             (let (descricao_final, cid_final, s1) =
                    (if tipo = ''Atestado''
                     then (let (descricao_cid, s1) = pesquisar_cid gemini cid s
                           in (cid @ '' - '' @ descricao_cid, cid, s1))
                     else if tipo = ''Folga'' then (motivo_texto, [], s)
                     else if tipo = ''Banco de Horas'' then (MOTIVO_BANCO, [], s)
                     else if tipo = ''Falta'' then (''Falta'', [], s)
                     else ([], [], s));
                  novo_registro =
                    \<lparr>Nome_do_Colaborador = StrV nome,
                     Data_de_Inicio = StrV (strftime_ymd data_inicio),
                     Dias = IntV dias,
                     Data_Final = StrV (strftime_ymd data_final),
                     CID = StrV cid_final,
                     Tipo = StrV tipo,
                     Motivo = StrV descricao_final\<rparr>;
                  df1 = concat_ignore_index df [novo_registro]
              in (Done, s1\<lparr>df_atestados := df1, saved := df1 # saved s1, cache := []\<rparr>)))"

text \<open>\<open>delete_record(index)\<close>.\<close>

definition delete_record :: "int \<Rightarrow> app_state \<Rightarrow> outcome \<times> app_state" where
  "delete_record index s =
     (case drop_label index (df_atestados s) of
        Inl e \<Rightarrow> (Raised e, s)
      | Inr dropped \<Rightarrow>
          (let df1 = reset_index (map snd dropped)
           in (Done, s\<lparr>df_atestados := df1, saved := df1 # saved s, cache := []\<rparr>)))"

text \<open>
  \<open>update_record(index, nome, data_inicio, dias, cid, tipo_original, motivo_original)\<close>.
  The edit form passes the row's own name, category and reason, which are cells of the
  frame. \<open>store_row\<close> is the tail of the function: the seven assignments through
  \<open>df.loc\<close>, the assignment to the session state and \<open>save_data\<close>. The cache is not
  cleared here.
\<close>

definition store_row :: "dataframe \<Rightarrow> int \<Rightarrow> row \<Rightarrow> app_state \<Rightarrow> outcome \<times> app_state" where
  "store_row df index new s =
     (let df1 = loc_set df index new
      in (Done, s\<lparr>df_atestados := df1, saved := df1 # saved s\<rparr>))"

definition update_record ::
  "service \<Rightarrow> int \<Rightarrow> cell \<Rightarrow> date \<Rightarrow> int \<Rightarrow> string \<Rightarrow> cell \<Rightarrow> cell \<Rightarrow> app_state \<Rightarrow> outcome \<times> app_state"
where
  "update_record gemini index nome data_inicio dias cid tipo_original motivo_original s =
     (let df = df_atestados s
      in case calcular_datas data_inicio dias of
           Inl e \<Rightarrow> (Raised e, s)
         | Inr (data_final, data_retorno) \<Rightarrow>
             (if tipo_original = StrV ''Atestado''
              then (case loc_get df index of
                      None \<Rightarrow> (Raised KeyError, s)
                    | Some stored \<Rightarrow>
                        (let (new_motive, s1) =
                               (if CID stored \<noteq> StrV cid
                                then (let (descricao_cid, s1) = pesquisar_cid gemini cid s
                                      in (StrV (cid @ '' - '' @ descricao_cid), s1))
                                else (motivo_original, s))
                         in store_row df index
                              \<lparr>Nome_do_Colaborador = nome,
                               Data_de_Inicio = StrV (strftime_ymd data_inicio),
                               Dias = IntV dias,
                               Data_Final = StrV (strftime_ymd data_final),
                               CID = StrV cid,
                               Tipo = tipo_original,
                               Motivo = new_motive\<rparr> s1))
              else store_row df index
                     \<lparr>Nome_do_Colaborador = nome,
                      Data_de_Inicio = StrV (strftime_ymd data_inicio),
                      Dias = IntV dias,
                      Data_Final = StrV (strftime_ymd data_final),
                      CID = StrV [],
                      Tipo = tipo_original,
                      Motivo = motivo_original\<rparr> s))"

section \<open>The submit handlers of the forms\<close>

text \<open>
  The blocks under \<open>if submitted:\<close>. \<open>nome\<close> is the value of the name widget: \<open>None\<close>
  when nothing is selected, else a string. The code and the free reason are taken as
  typed, the handlers below normalise them as the form does where it reads the widget
  (\<open>.upper().strip()\<close> and \<open>.strip()\<close>).
\<close>

definition nome_final_of :: "string option \<Rightarrow> string option" where
  "nome_final_of nome =
     (case nome of None \<Rightarrow> None | Some n \<Rightarrow> if n = [] then None else Some (strip n))"

definition MSG_NOME_E_CID :: string where
  "MSG_NOME_E_CID = ''Por favor, preencha o Nome do Colaborador e o C'' @ [CHR 0xC3, CHR 0xB3] @ ''digo CID.''"

definition MSG_NOME :: string where
  "MSG_NOME = ''Por favor, preencha o Nome do Colaborador.''"

definition MSG_MOTIVO :: string where
  "MSG_MOTIVO = ''Por favor, preencha o Motivo da Folga.''"

definition new_record_atestado_form ::
  "service \<Rightarrow> string option \<Rightarrow> date \<Rightarrow> int \<Rightarrow> string \<Rightarrow> app_state \<Rightarrow> outcome \<times> app_state"
where
  "new_record_atestado_form gemini nome data_inicio dias cid_text s =
     (let cid = strip (upper cid_text)
      in case nome_final_of nome of
           None \<Rightarrow> (StError MSG_NOME_E_CID, s)
         | Some nome_final \<Rightarrow>
             if nome_final \<noteq> [] \<and> cid \<noteq> []
             then add_record gemini nome_final data_inicio dias ''Atestado'' cid [] s
             else (StError MSG_NOME_E_CID, s))"

definition new_record_banco_form ::
  "service \<Rightarrow> string option \<Rightarrow> date \<Rightarrow> int \<Rightarrow> app_state \<Rightarrow> outcome \<times> app_state"
where
  "new_record_banco_form gemini nome data_inicio dias s =
     (case nome_final_of nome of
        None \<Rightarrow> (StError MSG_NOME, s)
      | Some nome_final \<Rightarrow>
          if nome_final \<noteq> []
          then add_record gemini nome_final data_inicio dias ''Banco de Horas'' [] [] s
          else (StError MSG_NOME, s))"

definition new_record_falta_form ::
  "service \<Rightarrow> string option \<Rightarrow> date \<Rightarrow> int \<Rightarrow> app_state \<Rightarrow> outcome \<times> app_state"
where
  "new_record_falta_form gemini nome data_inicio dias s =
     (case nome_final_of nome of
        None \<Rightarrow> (StError MSG_NOME, s)
      | Some nome_final \<Rightarrow>
          if nome_final \<noteq> []
          then add_record gemini nome_final data_inicio dias ''Falta'' [] [] s
          else (StError MSG_NOME, s))"

definition new_record_folga_form ::
  "service \<Rightarrow> string option \<Rightarrow> date \<Rightarrow> int \<Rightarrow> string \<Rightarrow> app_state \<Rightarrow> outcome \<times> app_state"
where
  "new_record_folga_form gemini nome data_inicio dias motivo_text s =
     (let motivo_livre = strip motivo_text
      in if motivo_livre = [] then (StError MSG_MOTIVO, s)
         else (case nome_final_of nome of
                 None \<Rightarrow> (StError MSG_NOME, s)
               | Some nome_final \<Rightarrow>
                   if nome_final \<noteq> []
                   then add_record gemini nome_final data_inicio dias ''Folga'' [] motivo_livre s
                   else (StError MSG_NOME, s)))"


section \<open>Loading the table\<close>

text \<open>
  What \<open>load_data\<close> finds: no file, a file that \<open>pd.read_csv\<close> fails on (with the
  exception's message), or the frame that \<open>pd.read_csv\<close> returns: the names of the header
  (distinct, as \<open>read_csv\<close> makes them) and the rows, each with one cell per column; an
  empty field is \<open>NaN\<close>.
\<close>

datatype csv_read = FileMissing | Unreadable string | Table "string list" "cell list list"

type_synonym raw_frame = "string list \<times> cell list list"

definition col_mapping :: "(string \<times> string) list" where
  "col_mapping =
     [(''Nome do Colaborador'', ''Nome_do_Colaborador''),
      (''Data de In'' @ [CHR 0xC3, CHR 0xAD] @ ''cio'', ''Data_de_Inicio''),
      (''Data Final'', ''Data_Final''),
      (''Descricao CID'', ''Motivo''),
      (''Descricao_CID'', ''Motivo''),
      (''Descricao_do_CID'', ''Motivo'')]"

text \<open>
  \<open>renomear = {k: v for k, v in col_mapping.items() if k in df.columns}\<close> and
  \<open>df.rename(columns=renomear)\<close>.
\<close>

definition rename_columns :: "string list \<Rightarrow> string list" where
  "rename_columns cols =
     (let renomear = filter (\<lambda>(k, v). k \<in> set cols) col_mapping
      in map (\<lambda>c. case map_of renomear c of Some v \<Rightarrow> v | None \<Rightarrow> c) cols)"

text \<open>The cell of a row under a column name; \<open>fill\<close> when the frame has no such column.\<close>

definition cell_of :: "string list \<Rightarrow> cell \<Rightarrow> cell list \<Rightarrow> string \<Rightarrow> cell" where
  "cell_of cols fill r c = (case map_of (zip cols r) c of Some v \<Rightarrow> v | None \<Rightarrow> fill)"

text \<open>\<open>df[c]\<close> for a column of the frame, and \<open>df[c] = values\<close> for a name it does not have.\<close>

definition get_column :: "raw_frame \<Rightarrow> string \<Rightarrow> cell list" where
  "get_column df c = map (\<lambda>r. cell_of (fst df) NaN r c) (snd df)"

definition add_column :: "raw_frame \<Rightarrow> string \<Rightarrow> cell list \<Rightarrow> raw_frame" where
  "add_column df c values = (fst df @ [c], map (\<lambda>(r, v). r @ [v]) (zip (snd df) values))"

text \<open>
  The function applied to the codes when the frame has no \<open>Tipo\<close>:
  \<open>lambda x: 'Atestado' if pd.notna(x) and x != '' else 'Atestado'\<close>.
\<close>

definition tipo_of_cid :: "cell \<Rightarrow> cell" where
  "tipo_of_cid x = (if x \<noteq> NaN \<and> x \<noteq> StrV [] then StrV ''Atestado'' else StrV ''Atestado'')"

text \<open>\<open>df.reindex(columns=COLUMNS, fill_value='')\<close>, row by row.\<close>

definition reindex_row :: "string list \<Rightarrow> cell list \<Rightarrow> row" where
  "reindex_row cols r =
     \<lparr>Nome_do_Colaborador = cell_of cols (StrV []) r ''Nome_do_Colaborador'',
      Data_de_Inicio = cell_of cols (StrV []) r ''Data_de_Inicio'',
      Dias = cell_of cols (StrV []) r ''Dias'',
      Data_Final = cell_of cols (StrV []) r ''Data_Final'',
      CID = cell_of cols (StrV []) r ''CID'',
      Tipo = cell_of cols (StrV []) r ''Tipo'',
      Motivo = cell_of cols (StrV []) r ''Motivo''\<rparr>"

text \<open>
  \<open>pd.to_datetime(column, errors='coerce')\<close> is pandas' own parser and is a parameter
  \<open>to_datetime\<close> of the model: it maps the cells of a column to time stamps, in
  nanoseconds since 1970-01-01, or to \<open>None\<close> (\<open>NaT\<close>) where a cell does not parse.
  \<open>.dt.date\<close> takes the date of each time stamp; 719163 is the ordinal of 1970-01-01.
\<close>

definition date_of_timestamp :: "int \<Rightarrow> date" where
  "date_of_timestamp ns = fromordinal (719163 + ns div 86400000000000)"

definition dt_date :: "int option \<Rightarrow> cell" where
  "dt_date t = (case t of None \<Rightarrow> NaN | Some ns \<Rightarrow> DateV (date_of_timestamp ns))"

text \<open>
  The \<open>try\<close> block of \<open>load_data\<close> after \<open>pd.read_csv\<close>. \<open>df['CID']\<close> raises
  \<open>KeyError\<close> when the frame has neither \<open>Tipo\<close> nor \<open>CID\<close>; \<open>reindex\<close> raises
  \<open>ValueError\<close> when the renaming has made two columns of one name.
\<close>

definition load_body ::
  "(cell list \<Rightarrow> int option list) \<Rightarrow> string list \<Rightarrow> cell list list \<Rightarrow> error + row list"
where
  "load_body to_datetime cols rows =
     (let df1 = (rename_columns cols, rows)
      in if ''Tipo'' \<notin> set (fst df1) \<and> ''CID'' \<notin> set (fst df1) then Inl KeyError
         else (let df2 = (if ''Tipo'' \<notin> set (fst df1)
                          then add_column df1 ''Tipo'' (map tipo_of_cid (get_column df1 ''CID''))
                          else df1);
                   df3 = (if ''Motivo'' \<notin> set (fst df2)
                          then add_column df2 ''Motivo'' (replicate (length (snd df2)) (StrV []))
                          else df2);
                   df4 = (if ''CID'' \<notin> set (fst df3)
                          then add_column df3 ''CID'' (replicate (length (snd df3)) (StrV []))
                          else df3)
               in if \<not> distinct (fst df4) then Inl ValueError
                  else (let rs = map (reindex_row (fst df4)) (snd df4);
                            inicio = map dt_date (to_datetime (map Data_de_Inicio rs));
                            rs1 = map (\<lambda>(r, v). r\<lparr>Data_de_Inicio := v\<rparr>) (zip rs inicio);
                            final = map dt_date (to_datetime (map Data_Final rs1));
                            rs2 = map (\<lambda>(r, v). r\<lparr>Data_Final := v\<rparr>) (zip rs1 final)
                        in Inr (filter (\<lambda>r. Nome_do_Colaborador r \<noteq> NaN) rs2))))"

text \<open>
  \<open>load_data()\<close>: the frame of the session and the exception shown by \<open>st.warning\<close>, if
  any. \<open>pd.DataFrame(columns=expected_columns)\<close> is the frame without rows.
\<close>

definition load_data ::
  "(cell list \<Rightarrow> int option list) \<Rightarrow> csv_read \<Rightarrow> dataframe \<times> error option"
where
  "load_data to_datetime file =
     (case file of
        FileMissing \<Rightarrow> ([], None)
      | Unreadable msg \<Rightarrow> ([], Some (ReadFailed msg))
      | Table cols rows \<Rightarrow>
          (case load_body to_datetime cols rows of
             Inl e \<Rightarrow> ([], Some e)
           | Inr rs \<Rightarrow> (reset_index rs, None)))"

section \<open>The listing\<close>

text \<open>
  \<open>sort_values(by="Data_para_Ordenar", ascending=False, na_position='last')\<close> on rows
  paired with their time stamps: the rows with a time stamp in descending order, then
  the rows without one in the order they had. pandas sorts with quicksort, which leaves
  the order among equal time stamps open; the model keeps them in their former order.
\<close>

definition timestamp_key :: "int option \<times> 'a \<Rightarrow> int" where
  "timestamp_key p = (case fst p of Some ns \<Rightarrow> ns | None \<Rightarrow> 0)"

definition sort_values_desc :: "(int option \<times> 'a) list \<Rightarrow> (int option \<times> 'a) list" where
  "sort_values_desc keyed =
     sort_key (\<lambda>p. - timestamp_key p) (filter (\<lambda>p. fst p \<noteq> None) keyed) @
     filter (\<lambda>p. fst p = None) keyed"

text \<open>
  The rows of the table of tab 5, each with the time stamp it was sorted by:
  \<open>Data_para_Ordenar = pd.to_datetime(df['Data_de_Inicio'], errors='coerce')\<close>.
\<close>

definition tab5_listing ::
  "(cell list \<Rightarrow> int option list) \<Rightarrow> dataframe \<Rightarrow> (int option \<times> int \<times> row) list"
where
  "tab5_listing to_datetime df =
     (if df = [] then []
      else sort_values_desc (zip (to_datetime (map (\<lambda>p. Data_de_Inicio (snd p)) df)) df))"

section \<open>Properties of the table and example inputs\<close>



text \<open>
  Every entry of the cache whose argument normalises to the empty code holds the text
  that \<open>pesquisar_cid\<close> returns for it. It holds of the empty cache, and the lookup
  keeps it.
\<close>

definition cache_sound :: "(string \<times> string \<times> nat) list \<Rightarrow> bool" where
  "cache_sound entries = list_all (\<lambda>(arg, v, stored). upper (strip arg) = [] \<and> v = NO_CID \<or> upper (strip arg) \<noteq> []) entries"

text \<open>Inputs for the examples: a service that always answers, and small states.\<close>

definition example_service :: service where
  "example_service k prompt = Response ''Dor lombar''"

definition empty_state :: app_state where
  "empty_state = \<lparr>df_atestados = [], saved = [], cache = [], api_calls = [], clock = 0\<rparr>"

definition example_row :: "string \<Rightarrow> string \<Rightarrow> string \<Rightarrow> row" where
  "example_row tipo cid motivo =
     \<lparr>Nome_do_Colaborador = StrV ''Ana'', Data_de_Inicio = StrV ''2024-01-30'', Dias = IntV 3,
      Data_Final = StrV ''2024-02-01'', CID = StrV cid, Tipo = StrV tipo, Motivo = StrV motivo\<rparr>"

definition example_state :: app_state where
  "example_state =
     \<lparr>df_atestados = [(0, example_row ''Atestado'' ''M54'' ''M54 - Dor lombar''),
                      (1, example_row ''Falta'' [] ''Falta''),
                      (2, example_row ''Atestado'' ''K21'' ''K21 - Refluxo'')],
      saved = [], cache = [], api_calls = [], clock = 0\<rparr>"

definition example_date :: date where
  "example_date = \<lparr>year = 2024, month = 1, day = 30\<rparr>"

text \<open>
  A stand-in for pandas' parser in the examples: it reads \<open>date\<close> objects and strings of
  the form \<open>YYYY-MM-DD\<close>, each cell by itself.
\<close>

definition example_timestamp :: "cell \<Rightarrow> int option" where
  "example_timestamp c =
     (case c of
        DateV d \<Rightarrow> Some ((toordinal d - 719163) * 86400000000000)
      | StrV s \<Rightarrow> (case strptime_ymd s of
                     Inr d \<Rightarrow> Some ((toordinal d - 719163) * 86400000000000)
                   | Inl e \<Rightarrow> None)
      | _ \<Rightarrow> None)"

definition example_to_datetime :: "cell list \<Rightarrow> int option list" where
  "example_to_datetime cells = map example_timestamp cells"

definition legacy_file :: csv_read where
  "legacy_file =
     Table [''Nome do Colaborador'', ''Data de In'' @ [CHR 0xC3, CHR 0xAD] @ ''cio'', ''Dias'', ''Data Final'', ''CID'',
            ''Descricao_do_CID'']
       [[StrV ''Ana'', StrV ''2024-01-30'', IntV 3, StrV ''2024-02-01'', StrV ''M54'',
         StrV ''Dor lombar''],
        [NaN, StrV ''2024-03-01'', IntV 1, StrV ''2024-03-01'', StrV ''J11'', StrV ''Gripe''],
        [StrV ''Bia'', StrV ''sem data'', IntV 2, NaN, NaN, NaN]]"

definition listing_example :: dataframe where
  "listing_example =
     [(0, (example_row ''Atestado'' ''M54'' ''M54 - Dor lombar'')),
      (1, (example_row ''Falta'' [] ''Falta'')\<lparr>Data_de_Inicio := StrV ''sem data''\<rparr>),
      (2, (example_row ''Folga'' [] ''Abono'')\<lparr>Data_de_Inicio := StrV ''2024-03-01''\<rparr>),
      (3, (example_row ''Falta'' [] ''Falta'')\<lparr>Data_de_Inicio := NaN\<rparr>)]"

section \<open>Calendar arithmetic: the ordinal of a date and its inverse\<close>





































section \<open>The date calculator\<close>




section \<open>Adding records\<close>


lemma map_fst_reset_index: "map fst (reset_index rs) = map int [0..<length rs]"
  by (simp add: reset_index_def)

lemma example_calcular:
  "calcular_datas example_date 3 =
     Inr (\<lparr>year = 2024, month = 2, day = 1\<rparr>, \<lparr>year = 2024, month = 2, day = 2\<rparr>)"
  by code_simp


lemma pesquisar_cid_frame:
  "df_atestados (snd (pesquisar_cid gemini c s)) = df_atestados s"
  "saved (snd (pesquisar_cid gemini c s)) = saved s"
  "clock (snd (pesquisar_cid gemini c s)) = clock s"
  by (auto simp: pesquisar_cid_def pesquisar_cid_body_def Let_def
      split: option.splits prod.splits api_result.splits if_splits)




lemma add_form_no_name:
  assumes "nome = None \<or> (\<exists>n. nome = Some n \<and> strip n = [])"
  shows "nome_final_of nome = None \<or> nome_final_of nome = Some []"
proof (cases nome)
  case None
  then show ?thesis by (simp add: nome_final_of_def)
next
  case (Some n)
  then have "strip n = []" using assms by simp
  then show ?thesis using Some by (simp add: nome_final_of_def)
qed

text \<open>
  C6. The submit handlers validate before anything is created. With no employee name
  (nothing selected, or a name that is empty once trimmed) each of the four forms shows
  an error; so does the \<open>Atestado\<close> form when the code is empty once normalised, and the
  \<open>Folga\<close> form when the reason is empty once trimmed. In each case the state is returned
  as it was: no row is added and nothing is written to the file.
\<close>

theorem add_forms_validate:
  "(nome = None \<or> (\<exists>n. nome = Some n \<and> strip n = []) \<longrightarrow>
      new_record_atestado_form gemini nome data_inicio dias c s = (StError MSG_NOME_E_CID, s) \<and>
      new_record_banco_form gemini nome data_inicio dias s = (StError MSG_NOME, s) \<and>
      new_record_falta_form gemini nome data_inicio dias s = (StError MSG_NOME, s) \<and>
      (\<exists>msg. new_record_folga_form gemini nome data_inicio dias m s = (StError msg, s))) \<and>
   (strip (upper c) = [] \<longrightarrow>
      new_record_atestado_form gemini nome data_inicio dias c s = (StError MSG_NOME_E_CID, s)) \<and>
   (strip m = [] \<longrightarrow>
      new_record_folga_form gemini nome data_inicio dias m s = (StError MSG_MOTIVO, s))"
proof (intro conjI impI)
  assume a: "nome = None \<or> (\<exists>n. nome = Some n \<and> strip n = [])"
  note nf = add_form_no_name [OF a]
  show "new_record_atestado_form gemini nome data_inicio dias c s = (StError MSG_NOME_E_CID, s)"
    using nf by (auto simp: new_record_atestado_form_def Let_def)
  show "new_record_banco_form gemini nome data_inicio dias s = (StError MSG_NOME, s)"
    using nf by (auto simp: new_record_banco_form_def)
  show "new_record_falta_form gemini nome data_inicio dias s = (StError MSG_NOME, s)"
    using nf by (auto simp: new_record_falta_form_def)
  show "\<exists>msg. new_record_folga_form gemini nome data_inicio dias m s = (StError msg, s)"
    using nf by (auto simp: new_record_folga_form_def Let_def)
next
  assume "strip (upper c) = []"
  then show "new_record_atestado_form gemini nome data_inicio dias c s = (StError MSG_NOME_E_CID, s)"
    by (simp add: new_record_atestado_form_def Let_def split: option.splits)
next
  assume "strip m = []"
  then show "new_record_folga_form gemini nome data_inicio dias m s = (StError MSG_MOTIVO, s)"
    by (simp add: new_record_folga_form_def Let_def)
qed

theorem add_forms_validate_witness:
  "new_record_atestado_form example_service (Some ''  '') example_date 3 ''m54'' example_state
     = (StError MSG_NOME_E_CID, example_state) \<and>
   new_record_banco_form example_service None example_date 3 example_state
     = (StError MSG_NOME, example_state) \<and>
   new_record_falta_form example_service (Some []) example_date 3 example_state
     = (StError MSG_NOME, example_state) \<and>
   new_record_atestado_form example_service (Some ''Ana'') example_date 3 '' '' example_state
     = (StError MSG_NOME_E_CID, example_state) \<and>
   new_record_folga_form example_service (Some ''Ana'') example_date 3 ''  '' example_state
     = (StError MSG_MOTIVO, example_state)"
proof -
  have b: "strip ''  '' = []" "strip [] = []" "strip (upper '' '') = []" by code_simp+
  have n1: "Some ''  '' = None \<or> (\<exists>n. Some ''  '' = Some n \<and> strip n = [])" using b by simp
  have n2: "(None :: string option) = None \<or> (\<exists>n. None = Some n \<and> strip n = [])" by simp
  have n3: "Some [] = None \<or> (\<exists>n. Some [] = Some n \<and> strip n = [])" using b by simp
  show ?thesis
    using add_forms_validate [of "Some ''  ''" example_service example_date 3 "''m54''" example_state "''  ''"]
      add_forms_validate [of None example_service example_date 3 "''m54''" example_state "''  ''"]
      add_forms_validate [of "Some []" example_service example_date 3 "''m54''" example_state "''  ''"]
      add_forms_validate [of "Some ''Ana''" example_service example_date 3 "'' ''" example_state "''  ''"]
      n1 n2 n3 b
    by simp
qed

section \<open>Updating records\<close>

lemma loc_get_label: "loc_get df index = Some r \<Longrightarrow> index \<in> set (map fst df)"
  unfolding loc_get_def by (metis map_of_eq_None_iff option.distinct(1) set_map)

lemma loc_get_None: "loc_get df index = None \<Longrightarrow> index \<notin> set (map fst df)"
  unfolding loc_get_def by (simp add: map_of_eq_None_iff)

lemma loc_get_loc_set:
  "index \<in> set (map fst df) \<Longrightarrow> loc_get (loc_set df index new) index = Some new"
  by (induction df) (auto simp: loc_get_def loc_set_def)





text \<open>What \<open>update_record\<close> does when the date arithmetic succeeds.\<close>

lemma update_record_atestado:
  assumes "loc_get (df_atestados s) index = Some stored"
    and "calcular_datas data_inicio dias = Inr (data_final, data_retorno)"
  shows "update_record gemini index nome data_inicio dias cid (StrV ''Atestado'') motivo_original s =
     store_row (df_atestados s) index
       \<lparr>Nome_do_Colaborador = nome,
        Data_de_Inicio = StrV (strftime_ymd data_inicio),
        Dias = IntV dias,
        Data_Final = StrV (strftime_ymd data_final),
        CID = StrV cid,
        Tipo = StrV ''Atestado'',
        Motivo = (if CID stored \<noteq> StrV cid
                  then StrV (cid @ '' - '' @ fst (pesquisar_cid gemini cid s))
                  else motivo_original)\<rparr>
       (if CID stored \<noteq> StrV cid then snd (pesquisar_cid gemini cid s) else s)"
  using assms by (simp add: update_record_def Let_def split: prod.splits)

lemma update_record_atestado_missing:
  assumes "loc_get (df_atestados s) index = None"
    and "calcular_datas data_inicio dias = Inr (data_final, data_retorno)"
  shows "update_record gemini index nome data_inicio dias cid (StrV ''Atestado'') motivo_original s =
     (Raised KeyError, s)"
  using assms by (simp add: update_record_def Let_def)


lemma delete_record_missing:
  "index \<notin> set (map fst (df_atestados s)) \<Longrightarrow> delete_record index s = (Raised KeyError, s)"
  by (simp add: delete_record_def drop_label_def)




lemma upper_strip_Nil: "upper (strip []) = []"
  by (simp add: upper_def strip_def)

lemma cache_lookup_sound:
  assumes "cache_sound entries" and "cache_lookup entries now arg = Some v"
    and "upper (strip arg) = []"
  shows "v = NO_CID"
proof -
  obtain stored where "map_of entries arg = Some (v, stored)"
    using assms(2) by (auto simp: cache_lookup_def split: option.splits if_splits)
  then have "(arg, v, stored) \<in> set entries" by (rule map_of_SomeD)
  then show ?thesis using assms(1,3) by (auto simp: cache_sound_def list_all_iff)
qed

lemma pesquisar_cid_body_empty:
  "upper (strip arg) = [] \<Longrightarrow> pesquisar_cid_body gemini arg s = (NO_CID, s)"
  by (simp add: pesquisar_cid_body_def)

lemma pesquisar_cid_empty:
  assumes "cache_sound (cache s)" and "upper (strip arg) = []"
  shows "fst (pesquisar_cid gemini arg s) = NO_CID"
    and "api_calls (snd (pesquisar_cid gemini arg s)) = api_calls s"
  using assms cache_lookup_sound [OF assms(1) _ assms(2)]
  by (auto simp: pesquisar_cid_def pesquisar_cid_body_empty split: option.splits)

lemma pesquisar_cid_cache_sound:
  assumes "cache_sound (cache s)"
  shows "cache_sound (cache (snd (pesquisar_cid gemini arg s)))"
proof (cases "cache_lookup (cache s) (clock s) arg")
  case (Some v)
  then show ?thesis using assms by (simp add: pesquisar_cid_def)
next
  case None
  obtain v s1 where b: "pesquisar_cid_body gemini arg s = (v, s1)" by (cases "pesquisar_cid_body gemini arg s")
  have c: "cache s1 = cache s"
    using b by (auto simp: pesquisar_cid_body_def Let_def split: if_splits api_result.splits)
  have v: "upper (strip arg) = [] \<Longrightarrow> v = NO_CID"
    using b by (simp add: pesquisar_cid_body_empty)
  show ?thesis
    using None b c v assms by (auto simp: pesquisar_cid_def cache_sound_def)
qed

text \<open>
  C10. Updating an \<open>Atestado\<close> row that holds a code with the empty code (the date
  arithmetic succeeding, and the cache holding for the empty code nothing but what the
  lookup returns for it) ends normally, with no validation error: the lookup answers
  \<open>"N/A - Nenhum CID fornecido."\<close> without a call of the service, and the row is saved
  with the empty code and the reason \<open>" - N/A - Nenhum CID fornecido."\<close>.
\<close>

theorem update_record_empty_code:
  assumes "loc_get (df_atestados s) index = Some stored"
    and "CID stored = StrV c0" and "c0 \<noteq> []"
    and "calcular_datas data_inicio dias = Inr (data_final, data_retorno)"
    and "cache_sound (cache s)"
  shows "\<exists>s' r'. update_record gemini index nome data_inicio dias [] (StrV ''Atestado'')
                    motivo_original s = (Done, s') \<and>
           fst (pesquisar_cid gemini [] s) = ''N/A - Nenhum CID fornecido.'' \<and>
           api_calls s' = api_calls s \<and>
           loc_get (df_atestados s') index = Some r' \<and>
           saved s' = df_atestados s' # saved s \<and>
           Tipo r' = StrV ''Atestado'' \<and>
           CID r' = StrV [] \<and>
           Motivo r' = StrV '' - N/A - Nenhum CID fornecido.''"
proof -
  note lab = loc_get_label [OF assms(1)]
  have ne: "CID stored \<noteq> StrV []" using assms(2,3) by simp
  note pe = pesquisar_cid_empty [OF assms(5) upper_strip_Nil, of gemini]
  show ?thesis
    unfolding update_record_atestado [OF assms(1,4)]
    using lab ne pe
    by (simp add: store_row_def Let_def loc_get_loc_set pesquisar_cid_frame NO_CID_def)
qed

theorem update_record_empty_code_witness:
  "\<exists>s' r'. update_record example_service 0 (StrV ''Ana'') example_date 3 [] (StrV ''Atestado'')
              (StrV ''M54 - Dor lombar'') example_state = (Done, s') \<and>
      api_calls s' = [] \<and>
      loc_get (df_atestados s') 0 = Some r' \<and> CID r' = StrV [] \<and>
      Motivo r' = StrV '' - N/A - Nenhum CID fornecido.''"
proof -
  have g0: "loc_get (df_atestados example_state) 0 =
      Some (example_row ''Atestado'' ''M54'' ''M54 - Dor lombar'')"
    by (simp add: example_state_def loc_get_def)
  have c: "CID (example_row ''Atestado'' ''M54'' ''M54 - Dor lombar'') = StrV ''M54''"
    by (simp add: example_row_def)
  have cs: "cache_sound (cache example_state)" by (simp add: example_state_def cache_sound_def)
  have a: "api_calls example_state = []" by (simp add: example_state_def)
  show ?thesis
    using update_record_empty_code [OF g0 c _ example_calcular cs, of example_service
        "StrV ''Ana''" "StrV ''M54 - Dor lombar''"] a
    by auto
qed

section \<open>The invariant of the table, and labels that no row has\<close>








text \<open>
  C4, where the code does what the claim says: deleting a label that no row has raises
  \<open>KeyError\<close> and leaves the state as it was, and so does updating it when
  \<open>tipo_original\<close> is \<open>Atestado\<close> (the read of the stored code fails).
\<close>

lemma missing_label_raises:
  assumes "index \<notin> set (map fst (df_atestados s))"
    and "calcular_datas data_inicio dias = Inr (data_final, data_retorno)"
  shows "delete_record index s = (Raised KeyError, s)"
    and "update_record gemini index nome data_inicio dias cid (StrV ''Atestado'') motivo_original s =
           (Raised KeyError, s)"
proof -
  show "delete_record index s = (Raised KeyError, s)"
    by (rule delete_record_missing) (rule assms(1))
  have "loc_get (df_atestados s) index = None"
    using assms(1) by (simp add: loc_get_def map_of_eq_None_iff)
  then show "update_record gemini index nome data_inicio dias cid (StrV ''Atestado'') motivo_original s =
           (Raised KeyError, s)"
    by (rule update_record_atestado_missing) (rule assms(2))
qed

text \<open>
  The example of C4: deleting label 2 of five rows leaves four rows, labelled 0 to 3,
  with the former row 3 at label 2; deleting label 4 then raises \<open>KeyError\<close>.
\<close>

lemma delete_example:
  "delete_record 2 (empty_state\<lparr>df_atestados := reset_index [r0, r1, r2, r3, r4]\<rparr>) =
     (Done, empty_state\<lparr>df_atestados := reset_index [r0, r1, r3, r4],
                         saved := [reset_index [r0, r1, r3, r4]], cache := []\<rparr>) \<and>
   delete_record 4 (empty_state\<lparr>df_atestados := reset_index [r0, r1, r3, r4],
                         saved := [reset_index [r0, r1, r3, r4]], cache := []\<rparr>) =
     (Raised KeyError, empty_state\<lparr>df_atestados := reset_index [r0, r1, r3, r4],
                         saved := [reset_index [r0, r1, r3, r4]], cache := []\<rparr>)"
  by (simp add: delete_record_def drop_label_def reset_index_def empty_state_def Let_def
      upt_rec [of 0] upt_rec [of 1] upt_rec [of 2] upt_rec [of 3] upt_rec [of 4])



section \<open>The cache of the lookup\<close>














section \<open>The order of the listing\<close>

lemma sort_values_desc_mset: "mset (sort_values_desc keyed) = mset keyed"
  by (simp add: sort_values_desc_def)

lemma sort_values_desc_split:
  "list_all (\<lambda>p. fst p \<noteq> None)
     (sort_key (\<lambda>p. - timestamp_key p) (filter (\<lambda>p. fst p \<noteq> None) keyed)) \<and>
   list_all (\<lambda>p. fst p = None) (filter (\<lambda>p. fst p = None) keyed) \<and>
   sorted_wrt (\<lambda>a b. timestamp_key b \<le> timestamp_key a)
     (sort_key (\<lambda>p. - timestamp_key p) (filter (\<lambda>p. fst p \<noteq> None) keyed))"
proof -
  let ?v = "sort_key (\<lambda>p. - timestamp_key p) (filter (\<lambda>p. fst p \<noteq> None) keyed)"
  have "sorted (map (\<lambda>p. - timestamp_key p) ?v)" by (rule sorted_sort_key)
  then have "sorted_wrt (\<lambda>a b. timestamp_key b \<le> timestamp_key a) ?v"
    by (simp add: sorted_wrt_map)
  then show ?thesis by (simp add: list_all_iff)
qed

lemma mset_map_snd_zip:
  "length ks = length xs \<Longrightarrow> mset (map snd (zip ks xs)) = mset xs"
  by simp

text \<open>
  C8. The listing is a rearrangement of the rows paired with their time stamps (of the
  rows themselves when the parser returns one result per cell): first the rows that
  have a time stamp, by descending time stamp, the most recent first, then every row
  whose start date is missing or does not parse.
\<close>

theorem listing_order:
  "mset (tab5_listing to_datetime df) =
     mset (zip (to_datetime (map (\<lambda>p. Data_de_Inicio (snd p)) df)) df) \<and>
   (length (to_datetime (map (\<lambda>p. Data_de_Inicio (snd p)) df)) = length df \<longrightarrow>
      mset (map snd (tab5_listing to_datetime df)) = mset df) \<and>
   (\<exists>dated undated.
      tab5_listing to_datetime df = dated @ undated \<and>
      list_all (\<lambda>p. fst p \<noteq> None) dated \<and>
      list_all (\<lambda>p. fst p = None) undated \<and>
      sorted_wrt (\<lambda>a b. timestamp_key b \<le> timestamp_key a) dated)"
proof (intro conjI impI)
  let ?keyed = "zip (to_datetime (map (\<lambda>p. Data_de_Inicio (snd p)) df)) df"
  show m: "mset (tab5_listing to_datetime df) = mset ?keyed"
    by (simp add: tab5_listing_def sort_values_desc_mset)
  show "mset (map snd (tab5_listing to_datetime df)) = mset df"
    if "length (to_datetime (map (\<lambda>p. Data_de_Inicio (snd p)) df)) = length df"
  proof -
    have "mset (map snd (tab5_listing to_datetime df)) = image_mset snd (mset ?keyed)"
      using m by (metis mset_map)
    also have "\<dots> = mset (map snd ?keyed)" by simp
    also have "\<dots> = mset df" using that by simp
    finally show ?thesis .
  qed
  show "\<exists>dated undated.
      tab5_listing to_datetime df = dated @ undated \<and>
      list_all (\<lambda>p. fst p \<noteq> None) dated \<and>
      list_all (\<lambda>p. fst p = None) undated \<and>
      sorted_wrt (\<lambda>a b. timestamp_key b \<le> timestamp_key a) dated"
  proof (cases "df = []")
    case True
    then show ?thesis by (simp add: tab5_listing_def)
  next
    case False
    show ?thesis
      using sort_values_desc_split [of ?keyed] False
      by (intro exI [of _ "sort_key (\<lambda>p. - timestamp_key p) (filter (\<lambda>p. fst p \<noteq> None) ?keyed)"]
            exI [of _ "filter (\<lambda>p. fst p = None) ?keyed"])
         (simp add: tab5_listing_def sort_values_desc_def)
  qed
qed

lemma listing_example_value:
  "map (\<lambda>p. (fst p, fst (snd p))) (tab5_listing example_to_datetime listing_example) =
     [(Some 1709251200000000000, 2), (Some 1706572800000000000, 0), (None, 1), (None, 3)]"
  by code_simp

theorem listing_order_witness:
  "mset (map snd (tab5_listing example_to_datetime listing_example)) = mset listing_example \<and>
   map (\<lambda>p. (fst p, fst (snd p))) (tab5_listing example_to_datetime listing_example) =
     [(Some 1709251200000000000, 2), (Some 1706572800000000000, 0), (None, 1), (None, 3)]"
proof -
  have l: "length (example_to_datetime (map (\<lambda>p. Data_de_Inicio (snd p)) listing_example)) =
      length listing_example"
    by (simp add: example_to_datetime_def)
  show ?thesis
    using listing_order [of example_to_datetime listing_example] l listing_example_value
    by blast
qed

section \<open>Loading and migrating the file\<close>

lemma map_of_filter_key:
  "P c \<Longrightarrow> map_of (filter (\<lambda>(k, v). P k) xs) c = map_of xs c"
  by (induction xs) auto

lemma rename_columns_map:
  "rename_columns cols = map (\<lambda>c. case map_of col_mapping c of Some v \<Rightarrow> v | None \<Rightarrow> c) cols"
  unfolding rename_columns_def Let_def
  by (rule map_cong) (simp_all add: map_of_filter_key [of "\<lambda>k. k \<in> set cols"])

lemma length_rename_columns: "length (rename_columns cols) = length cols"
  by (simp add: rename_columns_map)

lemma cell_of_absent: "c \<notin> set cols \<Longrightarrow> cell_of cols fill r c = fill"
proof -
  assume "c \<notin> set cols"
  then have "c \<notin> fst ` set (zip cols r)" by (auto dest: set_zip_leftD)
  then have "map_of (zip cols r) c = None" by (simp add: map_of_eq_None_iff)
  then show ?thesis by (simp add: cell_of_def)
qed

lemma cell_of_snoc:
  assumes "length r = length cols"
  shows "cell_of (cols @ [c']) fill (r @ [v]) c =
           (if c \<in> set cols then cell_of cols fill r c else if c = c' then v else fill)"
proof -
  have z: "zip (cols @ [c']) (r @ [v]) = zip cols r @ [(c', v)]" using assms by simp
  have "fst ` set (zip cols r) = set (map fst (zip cols r))" by simp
  also have "\<dots> = set cols" using assms by (simp only: map_fst_zip)
  finally have d: "(map_of (zip cols r) c = None) = (c \<notin> set cols)"
    by (simp add: map_of_eq_None_iff)
  show ?thesis
  proof (cases "c \<in> set cols")
    case True
    then obtain w where "map_of (zip cols r) c = Some w" using d by auto
    then show ?thesis using True by (simp add: cell_of_def z map_add_def)
  next
    case False
    then have "map_of (zip cols r) c = None" using d by simp
    then show ?thesis using False by (auto simp: cell_of_def z map_add_def)
  qed
qed

lemma add_column_const:
  assumes "n = length rows"
  shows "add_column (cols, rows) c (replicate n v) = (cols @ [c], map (\<lambda>r. r @ [v]) rows)"
proof -
  have "zip rows (replicate (length rows) v) = map (\<lambda>r. (r, v)) rows"
    by (induction rows) simp_all
  then show ?thesis using assms by (simp add: add_column_def)
qed

lemma tipo_column_const:
  "map tipo_of_cid (get_column (cols, rows) c) = replicate (length rows) (StrV ''Atestado'')"
proof -
  have "tipo_of_cid x = StrV ''Atestado''" for x by (simp add: tipo_of_cid_def)
  then show ?thesis by (induction rows) (simp_all add: get_column_def)
qed

lemma map_zip_update:
  assumes "length vs = length rs" and "\<And>r v. f (g r v) = f r"
  shows "map f (map (\<lambda>(r, v). g r v) (zip rs vs)) = map f rs"
  using assms(1)
proof (induction vs rs rule: list_induct2)
  case Nil
  show ?case by simp
next
  case (Cons v vs r rs)
  then show ?case by (simp add: assms(2))
qed


lemma cell_of_append:
  assumes "length r = length cols"
  shows "cell_of (cols @ cols') fill (r @ r') c =
           (if c \<in> set cols then cell_of cols fill r c else cell_of cols' fill r' c)"
proof -
  have z: "zip (cols @ cols') (r @ r') = zip cols r @ zip cols' r'" using assms by simp
  have "fst ` set (zip cols r) = set (map fst (zip cols r))" by simp
  also have "\<dots> = set cols" using assms by (simp only: map_fst_zip)
  finally have d: "(map_of (zip cols r) c = None) = (c \<notin> set cols)"
    by (simp add: map_of_eq_None_iff)
  show ?thesis
  proof (cases "c \<in> set cols")
    case True
    then obtain w where "map_of (zip cols r) c = Some w" using d by auto
    then show ?thesis using True by (simp add: cell_of_def z map_add_def)
  next
    case False
    then have "map_of (zip cols r) c = None" using d by simp
    then show ?thesis using False by (simp add: cell_of_def z map_add_def)
  qed
qed

text \<open>The columns that \<open>load_data\<close> adds to a frame with the header \<open>cols1\<close>, and their cells.\<close>

lemma load_body_shape:
  fixes cols rows
  defines "cols1 \<equiv> rename_columns cols"
  defines "names \<equiv> (if ''Tipo'' \<in> set cols1 then [] else [''Tipo'']) @
                    (if ''Motivo'' \<in> set cols1 then [] else [''Motivo'']) @
                    (if ''CID'' \<in> set cols1 then [] else [''CID''])"
  defines "cells \<equiv> (if ''Tipo'' \<in> set cols1 then [] else [StrV ''Atestado'']) @
                    (if ''Motivo'' \<in> set cols1 then [] else [StrV []]) @
                    (if ''CID'' \<in> set cols1 then [] else [StrV []])"
  shows "load_body to_datetime cols rows =
     (if ''Tipo'' \<notin> set cols1 \<and> ''CID'' \<notin> set cols1 then Inl KeyError
      else if \<not> distinct (cols1 @ names) then Inl ValueError
      else (let rs = map (reindex_row (cols1 @ names)) (map (\<lambda>r. r @ cells) rows);
                inicio = map dt_date (to_datetime (map Data_de_Inicio rs));
                rs1 = map (\<lambda>(r, v). r\<lparr>Data_de_Inicio := v\<rparr>) (zip rs inicio);
                final = map dt_date (to_datetime (map Data_Final rs1));
                rs2 = map (\<lambda>(r, v). r\<lparr>Data_Final := v\<rparr>) (zip rs1 final)
            in Inr (filter (\<lambda>r. Nome_do_Colaborador r \<noteq> NaN) rs2)))"
  unfolding load_body_def names_def cells_def cols1_def [symmetric]
  by (cases "''Tipo'' \<in> set cols1"; cases "''Motivo'' \<in> set cols1"; cases "''CID'' \<in> set cols1";
      simp add: Let_def add_column_const tipo_column_const o_def del: distinct_append)


lemma load_body_raises:
  assumes "''Tipo'' \<notin> set (rename_columns cols) \<and> ''CID'' \<notin> set (rename_columns cols) \<or>
           \<not> distinct (rename_columns cols)"
  shows "\<exists>e. load_body to_datetime cols rows = Inl e"
  using assms unfolding load_body_shape by auto

lemma load_body_rows:
  fixes cols rows
  defines "cols1 \<equiv> rename_columns cols"
  assumes wf: "list_all (\<lambda>r. length r = length cols) rows"
    and len: "\<And>cells. length (to_datetime cells) = length cells"
    and dist: "distinct cols1"
    and has: "''Tipo'' \<in> set cols1 \<or> ''CID'' \<in> set cols1"
  shows "\<exists>rs. load_body to_datetime cols rows = Inr rs \<and>
           list_all (\<lambda>r. Nome_do_Colaborador r \<noteq> NaN) rs \<and>
           map (\<lambda>r. (Nome_do_Colaborador r, Dias r, CID r, Tipo r, Motivo r)) rs =
             filter (\<lambda>t. fst t \<noteq> NaN)
               (map (\<lambda>r. (cell_of cols1 (StrV []) r ''Nome_do_Colaborador'',
                          cell_of cols1 (StrV []) r ''Dias'',
                          cell_of cols1 (StrV []) r ''CID'',
                          (if ''Tipo'' \<in> set cols1 then cell_of cols1 (StrV []) r ''Tipo''
                           else StrV ''Atestado''),
                          cell_of cols1 (StrV []) r ''Motivo'')) rows)"
proof -
  define names where "names = (if ''Tipo'' \<in> set cols1 then [] else [''Tipo'']) @
                    (if ''Motivo'' \<in> set cols1 then [] else [''Motivo'']) @
                    (if ''CID'' \<in> set cols1 then [] else [''CID''])"
  define cells where "cells = (if ''Tipo'' \<in> set cols1 then [] else [StrV ''Atestado'']) @
                    (if ''Motivo'' \<in> set cols1 then [] else [StrV []]) @
                    (if ''CID'' \<in> set cols1 then [] else [StrV []])"
  define proj where "proj = (\<lambda>r :: row. (Nome_do_Colaborador r, Dias r, CID r, Tipo r, Motivo r))"
  define want where "want = (\<lambda>r. (cell_of cols1 (StrV []) r ''Nome_do_Colaborador'',
                          cell_of cols1 (StrV []) r ''Dias'',
                          cell_of cols1 (StrV []) r ''CID'',
                          (if ''Tipo'' \<in> set cols1 then cell_of cols1 (StrV []) r ''Tipo''
                           else StrV ''Atestado''),
                          cell_of cols1 (StrV []) r ''Motivo''))"
  define rs where "rs = map (reindex_row (cols1 @ names)) (map (\<lambda>r. r @ cells) rows)"
  define rs1 where "rs1 = map (\<lambda>(r, v). r\<lparr>Data_de_Inicio := v\<rparr>)
      (zip rs (map dt_date (to_datetime (map Data_de_Inicio rs))))"
  define rs2 where "rs2 = map (\<lambda>(r, v). r\<lparr>Data_Final := v\<rparr>)
      (zip rs1 (map dt_date (to_datetime (map Data_Final rs1))))"
  have d4: "distinct (cols1 @ names)" using dist by (auto simp: names_def)
  have body: "load_body to_datetime cols rows = Inr (filter (\<lambda>r. Nome_do_Colaborador r \<noteq> NaN) rs2)"
    unfolding load_body_shape cols1_def [symmetric] names_def [symmetric] cells_def [symmetric]
    using has d4 by (simp add: Let_def rs_def rs1_def rs2_def)
  have row: "proj (reindex_row (cols1 @ names) (r @ cells)) = want r" if "r \<in> set rows" for r
  proof -
    have l: "length r = length cols1"
      using that wf by (simp add: list_all_iff cols1_def length_rename_columns)
    have ab: "c \<notin> set cols1 \<Longrightarrow> cell_of cols1 (StrV []) r c = StrV []" for c
      by (rule cell_of_absent)
    have ex: "cell_of names (StrV []) cells c =
        (if c = ''Tipo'' \<and> ''Tipo'' \<notin> set cols1 then StrV ''Atestado'' else StrV [])" for c
      unfolding names_def cells_def cell_of_def by simp
    show ?thesis
      unfolding proj_def want_def reindex_row_def
      by (simp add: cell_of_append [OF l] ex ab)
  qed
  have p0: "map proj rs = map want rows"
    unfolding rs_def by (simp add: o_def row)
  have l1: "length (map dt_date (to_datetime (map Data_de_Inicio rs))) = length rs"
    by (simp add: len)
  have p1: "map proj rs1 = map proj rs"
    unfolding rs1_def by (rule map_zip_update [OF l1]) (simp add: proj_def)
  have l2: "length (map dt_date (to_datetime (map Data_Final rs1))) = length rs1"
    by (simp add: len)
  have p2: "map proj rs2 = map proj rs1"
    unfolding rs2_def by (rule map_zip_update [OF l2]) (simp add: proj_def)
  have f: "(\<lambda>r. Nome_do_Colaborador r \<noteq> NaN) = (\<lambda>t. fst t \<noteq> NaN) \<circ> proj"
    by (simp add: proj_def fun_eq_iff)
  have "map proj (filter (\<lambda>r. Nome_do_Colaborador r \<noteq> NaN) rs2) =
      filter (\<lambda>t. fst t \<noteq> NaN) (map proj rs2)"
    unfolding f by (simp add: filter_map)
  also have "\<dots> = filter (\<lambda>t. fst t \<noteq> NaN) (map want rows)"
    by (simp only: p2 p1 p0)
  finally have pr: "map proj (filter (\<lambda>r. Nome_do_Colaborador r \<noteq> NaN) rs2) =
      filter (\<lambda>t. fst t \<noteq> NaN) (map want rows)" .
  have "list_all (\<lambda>r. Nome_do_Colaborador r \<noteq> NaN) (filter (\<lambda>r. Nome_do_Colaborador r \<noteq> NaN) rs2)"
    by (simp add: list_all_iff)
  then show ?thesis
    using body pr unfolding proj_def want_def by blast
qed

text \<open>
  C5. A missing file gives the empty frame and no warning. A file that cannot be read
  gives the empty frame and a warning, and so does any file on which the \<open>try\<close> block
  raises (no \<open>Tipo\<close> and no \<open>CID\<close> column, or two columns renamed to one name): the
  function always returns. Old column names are replaced by the current ones, each
  independently. For a file whose rows have one cell per column, whose renamed header
  has no name twice and has \<open>Tipo\<close> or \<open>CID\<close>, and with a date parser that returns one result
  per cell, the frame is labelled \<open>0, 1, ...\<close> and holds, in the file's order, exactly the
  rows whose name is not \<open>NaN\<close>; name, day count, code and reason are the cells under the
  renamed header (the empty string for a column the file does not have), and when the
  file has no \<open>Tipo\<close> column every row (so every row with a code) is an \<open>Atestado\<close>.
\<close>

theorem load_data_migrates:
  "load_data to_datetime FileMissing = ([], None) \<and>
   load_data to_datetime (Unreadable msg) = ([], Some (ReadFailed msg)) \<and>
   rename_columns cols =
     map (\<lambda>c. case map_of col_mapping c of Some v \<Rightarrow> v | None \<Rightarrow> c) cols \<and>
   (''Tipo'' \<notin> set (rename_columns cols) \<and> ''CID'' \<notin> set (rename_columns cols) \<or>
      \<not> distinct (rename_columns cols) \<longrightarrow>
      (\<exists>e. load_data to_datetime (Table cols rows) = ([], Some e))) \<and>
   (list_all (\<lambda>r. length r = length cols) rows \<and>
      (\<forall>cells. length (to_datetime cells) = length cells) \<and>
      distinct (rename_columns cols) \<and>
      (''Tipo'' \<in> set (rename_columns cols) \<or> ''CID'' \<in> set (rename_columns cols)) \<longrightarrow>
      (\<exists>df. load_data to_datetime (Table cols rows) = (df, None) \<and>
         map fst df = map int [0..<length df] \<and>
         list_all (\<lambda>p. Nome_do_Colaborador (snd p) \<noteq> NaN) df \<and>
         map (\<lambda>p. (Nome_do_Colaborador (snd p), Dias (snd p), CID (snd p), Tipo (snd p),
                   Motivo (snd p))) df =
           filter (\<lambda>t. fst t \<noteq> NaN)
             (map (\<lambda>r. (cell_of (rename_columns cols) (StrV []) r ''Nome_do_Colaborador'',
                        cell_of (rename_columns cols) (StrV []) r ''Dias'',
                        cell_of (rename_columns cols) (StrV []) r ''CID'',
                        (if ''Tipo'' \<in> set (rename_columns cols)
                         then cell_of (rename_columns cols) (StrV []) r ''Tipo''
                         else StrV ''Atestado''),
                        cell_of (rename_columns cols) (StrV []) r ''Motivo'')) rows)))"
proof (intro conjI impI)
  show "load_data to_datetime FileMissing = ([], None)" by (simp add: load_data_def)
  show "load_data to_datetime (Unreadable msg) = ([], Some (ReadFailed msg))"
    by (simp add: load_data_def)
  show "rename_columns cols =
     map (\<lambda>c. case map_of col_mapping c of Some v \<Rightarrow> v | None \<Rightarrow> c) cols"
    by (rule rename_columns_map)
next
  assume "''Tipo'' \<notin> set (rename_columns cols) \<and> ''CID'' \<notin> set (rename_columns cols) \<or>
      \<not> distinct (rename_columns cols)"
  then obtain e where "load_body to_datetime cols rows = Inl e"
    using load_body_raises by blast
  then show "\<exists>e. load_data to_datetime (Table cols rows) = ([], Some e)"
    by (simp add: load_data_def)
next
  assume a: "list_all (\<lambda>r. length r = length cols) rows \<and>
      (\<forall>cells. length (to_datetime cells) = length cells) \<and>
      distinct (rename_columns cols) \<and>
      (''Tipo'' \<in> set (rename_columns cols) \<or> ''CID'' \<in> set (rename_columns cols))"
  obtain rs where rs: "load_body to_datetime cols rows = Inr rs"
    "list_all (\<lambda>r. Nome_do_Colaborador r \<noteq> NaN) rs"
    "map (\<lambda>r. (Nome_do_Colaborador r, Dias r, CID r, Tipo r, Motivo r)) rs =
             filter (\<lambda>t. fst t \<noteq> NaN)
               (map (\<lambda>r. (cell_of (rename_columns cols) (StrV []) r ''Nome_do_Colaborador'',
                          cell_of (rename_columns cols) (StrV []) r ''Dias'',
                          cell_of (rename_columns cols) (StrV []) r ''CID'',
                          (if ''Tipo'' \<in> set (rename_columns cols)
                           then cell_of (rename_columns cols) (StrV []) r ''Tipo''
                           else StrV ''Atestado''),
                          cell_of (rename_columns cols) (StrV []) r ''Motivo'')) rows)"
    using load_body_rows [of cols rows to_datetime] a by blast
  let ?df = "reset_index rs"
  have 1: "load_data to_datetime (Table cols rows) = (?df, None)"
    using rs(1) by (simp add: load_data_def)
  have 2: "map fst ?df = map int [0..<length ?df]" by (simp add: reset_index_def)
  have 3: "list_all (\<lambda>p. Nome_do_Colaborador (snd p) \<noteq> NaN) ?df"
    using rs(2) by (auto simp: list_all_iff reset_index_def dest: set_zip_rightD)
  have "map (\<lambda>p. (Nome_do_Colaborador (snd p), Dias (snd p), CID (snd p), Tipo (snd p),
                   Motivo (snd p))) ?df =
        map (\<lambda>r. (Nome_do_Colaborador r, Dias r, CID r, Tipo r, Motivo r)) (map snd ?df)"
    by (simp add: o_def)
  also have "map snd ?df = rs" by (simp add: reset_index_def)
  finally have 4: "map (\<lambda>p. (Nome_do_Colaborador (snd p), Dias (snd p), CID (snd p),
      Tipo (snd p), Motivo (snd p))) ?df =
        map (\<lambda>r. (Nome_do_Colaborador r, Dias r, CID r, Tipo r, Motivo r)) rs" .
  show "\<exists>df. load_data to_datetime (Table cols rows) = (df, None) \<and>
         map fst df = map int [0..<length df] \<and>
         list_all (\<lambda>p. Nome_do_Colaborador (snd p) \<noteq> NaN) df \<and>
         map (\<lambda>p. (Nome_do_Colaborador (snd p), Dias (snd p), CID (snd p), Tipo (snd p),
                   Motivo (snd p))) df =
           filter (\<lambda>t. fst t \<noteq> NaN)
             (map (\<lambda>r. (cell_of (rename_columns cols) (StrV []) r ''Nome_do_Colaborador'',
                        cell_of (rename_columns cols) (StrV []) r ''Dias'',
                        cell_of (rename_columns cols) (StrV []) r ''CID'',
                        (if ''Tipo'' \<in> set (rename_columns cols)
                         then cell_of (rename_columns cols) (StrV []) r ''Tipo''
                         else StrV ''Atestado''),
                        cell_of (rename_columns cols) (StrV []) r ''Motivo'')) rows)"
    using 1 2 3 4 rs(3) by (intro exI [of _ ?df]) (simp only: simp_thms)
qed


theorem load_data_migrates_witness:
  "(\<exists>df. load_data example_to_datetime legacy_file = (df, None) \<and>
      map fst df = [0, 1] \<and>
      map (\<lambda>p. (Nome_do_Colaborador (snd p), Dias (snd p), CID (snd p), Tipo (snd p),
                Motivo (snd p))) df =
        [(StrV ''Ana'', IntV 3, StrV ''M54'', StrV ''Atestado'', StrV ''Dor lombar''),
         (StrV ''Bia'', IntV 2, NaN, StrV ''Atestado'', NaN)]) \<and>
   (\<exists>e. load_data example_to_datetime
           (Table [''Nome_do_Colaborador'', ''Dias''] [[StrV ''Ana'', IntV 1]]) = ([], Some e))"
proof -
  let ?cols = "[''Nome do Colaborador'', ''Data de In'' @ [CHR 0xC3, CHR 0xAD] @ ''cio'', ''Dias'', ''Data Final'', ''CID'',
            ''Descricao_do_CID'']"
  let ?rows = "[[StrV ''Ana'', StrV ''2024-01-30'', IntV 3, StrV ''2024-02-01'', StrV ''M54'',
         StrV ''Dor lombar''],
        [NaN, StrV ''2024-03-01'', IntV 1, StrV ''2024-03-01'', StrV ''J11'', StrV ''Gripe''],
        [StrV ''Bia'', StrV ''sem data'', IntV 2, NaN, NaN, NaN]]"
  let ?cols' = "[''Nome_do_Colaborador'', ''Dias'']"
  let ?rows' = "[[StrV ''Ana'', IntV 1]]"
  have f: "legacy_file = Table ?cols ?rows" by (simp add: legacy_file_def)
  have r: "rename_columns ?cols =
      [''Nome_do_Colaborador'', ''Data_de_Inicio'', ''Dias'', ''Data_Final'', ''CID'', ''Motivo'']"
    by code_simp
  have r': "rename_columns ?cols' = ?cols'" by code_simp
  have h: "list_all (\<lambda>r. length r = length ?cols) ?rows \<and>
      (\<forall>cells. length (example_to_datetime cells) = length cells) \<and>
      distinct (rename_columns ?cols) \<and>
      (''Tipo'' \<in> set (rename_columns ?cols) \<or> ''CID'' \<in> set (rename_columns ?cols))"
    unfolding r by (simp add: example_to_datetime_def)
  have h': "''Tipo'' \<notin> set (rename_columns ?cols') \<and> ''CID'' \<notin> set (rename_columns ?cols') \<or>
      \<not> distinct (rename_columns ?cols')"
    unfolding r' by simp
  have v: "filter (\<lambda>t. fst t \<noteq> NaN)
             (map (\<lambda>r. (cell_of (rename_columns ?cols) (StrV []) r ''Nome_do_Colaborador'',
                        cell_of (rename_columns ?cols) (StrV []) r ''Dias'',
                        cell_of (rename_columns ?cols) (StrV []) r ''CID'',
                        (if ''Tipo'' \<in> set (rename_columns ?cols)
                         then cell_of (rename_columns ?cols) (StrV []) r ''Tipo''
                         else StrV ''Atestado''),
                        cell_of (rename_columns ?cols) (StrV []) r ''Motivo'')) ?rows) =
        [(StrV ''Ana'', IntV 3, StrV ''M54'', StrV ''Atestado'', StrV ''Dor lombar''),
         (StrV ''Bia'', IntV 2, NaN, StrV ''Atestado'', NaN)]"
    unfolding r by (simp add: cell_of_def)
  obtain df where df: "load_data example_to_datetime (Table ?cols ?rows) = (df, None)"
    "map fst df = map int [0..<length df]"
    "map (\<lambda>p. (Nome_do_Colaborador (snd p), Dias (snd p), CID (snd p), Tipo (snd p),
                Motivo (snd p))) df =
        [(StrV ''Ana'', IntV 3, StrV ''M54'', StrV ''Atestado'', StrV ''Dor lombar''),
         (StrV ''Bia'', IntV 2, NaN, StrV ''Atestado'', NaN)]"
    using load_data_migrates [of example_to_datetime msg ?cols ?rows, THEN conjunct2,
        THEN conjunct2, THEN conjunct2, THEN conjunct2, THEN mp, OF h]
    unfolding v by (elim exE conjE)
  have ld: "length df = 2" using arg_cong [OF df(3), of length] by simp
  have i2: "map int [0..<2] = [0, 1]" by code_simp
  have mf: "map fst df = [0, 1]" by (simp only: df(2) ld i2)
  have a: "\<exists>df. load_data example_to_datetime legacy_file = (df, None) \<and>
      map fst df = [0, 1] \<and>
      map (\<lambda>p. (Nome_do_Colaborador (snd p), Dias (snd p), CID (snd p), Tipo (snd p),
                Motivo (snd p))) df =
        [(StrV ''Ana'', IntV 3, StrV ''M54'', StrV ''Atestado'', StrV ''Dor lombar''),
         (StrV ''Bia'', IntV 2, NaN, StrV ''Atestado'', NaN)]"
    unfolding f by (rule exI [of _ df]) (simp only: df(1,3) mf simp_thms)
  have b: "\<exists>e. load_data example_to_datetime (Table ?cols' ?rows') = ([], Some e)"
    by (rule load_data_migrates [of example_to_datetime msg ?cols' ?rows', THEN conjunct2,
        THEN conjunct2, THEN conjunct2, THEN conjunct1, THEN mp, OF h'])
  show ?thesis using a b by (rule conjI)
qed

end
